theory Spec2Isabelle
  imports Main
begin

section \<open>Values, notifications, errors\<close>

text \<open>
  The library (src/index.ts) is generic in \<open>Value\<close> and \<open>Selected\<close>; they are the type
  variables \<open>'v\<close> and \<open>'s\<close> here.  The only comparison the code makes on such values is
  \<^verbatim>\<open>Object.is\<close>, which is what HOL equality on \<open>'v\<close> and \<open>'s\<close> stands for: an element of
  \<open>'v\<close> is a JavaScript value up to \<^verbatim>\<open>Object.is\<close> (an object reference, or a primitive).

  A listener receives \<^verbatim>\<open>[number] | [number, Value]\<close>: a one-element array carrying a
  version, or a two-element array carrying a version and a value.  The version counter
  is a JavaScript number that starts at 0 (or -1) and only ever has 1 added to it; every
  integer below \<open>2^53\<close> is exact in that representation, and the model uses \<open>int\<close>.
\<close>

datatype 'v action =
    VersionOnly int            \<comment> \<open>\<^verbatim>\<open>[version]\<close>, \<^verbatim>\<open>next.length === 1\<close>\<close>
  | VersionAndValue int 'v     \<comment> \<open>\<^verbatim>\<open>[version, value]\<close>, \<^verbatim>\<open>next.length === 2\<close>\<close>

text \<open>\<^verbatim>\<open>next[0]\<close>.\<close>

fun next_0 :: "'v action \<Rightarrow> int" where
  "next_0 (VersionOnly ver) = ver"
| "next_0 (VersionAndValue ver x) = ver"

text \<open>
  What a call can throw: the \<^verbatim>\<open>Error\<close> the hooks raise themselves (with its message), the
  \<^verbatim>\<open>TypeError\<close> of the JavaScript runtime on a property read or a destructuring of
  \<^verbatim>\<open>undefined\<close>/\<^verbatim>\<open>null\<close>, and whatever a selector throws.
\<close>

datatype 'x error = UsageError string | TypeError | Thrown 'x

section \<open>The cell: the payload under \<open>CONTEXT_VALUE\<close>\<close>

text \<open>
  \<^verbatim>\<open>ContextValue<Value>[CONTEXT_VALUE]\<close> is \<^verbatim>\<open>{ v, n, l, u }\<close>.  In \<^verbatim>\<open>createProvider\<close> the
  four entries are \<^verbatim>\<open>valueRef\<close>, \<^verbatim>\<open>versionRef\<close>, \<^verbatim>\<open>listeners\<close> and \<^verbatim>\<open>update\<close>; the fields
  below carry those names and hold the \<^verbatim>\<open>.current\<close> of the two refs.  A listener is the
  \<^verbatim>\<open>dispatch\<close> function of one mounted consumer; it is identified by a number.  A
  JavaScript \<^verbatim>\<open>Set\<close> iterates in insertion order and holds no duplicates: it is a list
  that \<open>listeners_add\<close> and \<open>listeners_delete\<close> keep duplicate-free.  The entry \<^verbatim>\<open>u\<close> is
  one of two functions: \<^verbatim>\<open>(f) => f()\<close> in the default payload of \<^verbatim>\<open>createContext\<close>, and
  the closure \<^verbatim>\<open>update\<close> in a Provider.
\<close>

type_synonym lid = nat

datatype updater = DefaultU | ProviderUpdate

record 'v cell =
  valueRef :: 'v
  versionRef :: int
  listeners :: "lid list"
  u :: updater

text \<open>\<^verbatim>\<open>createContext(defaultValue)\<close>: the payload of the default context value.\<close>

definition createContext :: "'v \<Rightarrow> 'v cell" where
  "createContext defaultValue =
     \<lparr>valueRef = defaultValue, versionRef = - 1, listeners = [], u = DefaultU\<rparr>"

section \<open>The consumer: \<open>useContextSelector\<close> and its reducer\<close>

text \<open>
  The state of \<^verbatim>\<open>useReducer\<close> is an object \<^verbatim>\<open>{ value, selected }\<close>.  The reducer either
  returns \<^verbatim>\<open>prev\<close>, the very object it was given, or a new object literal; React compares
  the two by reference to decide whether to render.  So state objects live in a store
  and are passed by address: \<open>obj st r\<close> is the object at address \<open>r\<close>, the addresses
  below \<open>fresh st\<close> are allocated, and an object literal allocates the next address.
\<close>

type_synonym ref = nat

record ('v, 's) sel_state =
  "value" :: 'v
  selected :: 's

record ('v, 's) store =
  obj :: "ref \<Rightarrow> ('v, 's) sel_state"
  fresh :: ref

definition new_obj :: "('v, 's) sel_state \<Rightarrow> ('v, 's) store \<Rightarrow> ref \<times> ('v, 's) store" where
  "new_obj x st = (fresh st, st\<lparr>obj := (obj st)(fresh st := x), fresh := Suc (fresh st)\<rparr>)"

text \<open>
  What \<^verbatim>\<open>useContextOrig(context)\<close> yields for the handle the hook is called with:
  \<^verbatim>\<open>undefined\<close> or \<^verbatim>\<open>null\<close>; some other value that has no \<^verbatim>\<open>CONTEXT_VALUE\<close> property (the
  symbol is private to the module, so no value made elsewhere has it); or the object
  \<^verbatim>\<open>{ [CONTEXT_VALUE]: cell }\<close> of a context made by \<^verbatim>\<open>createContext\<close>.
\<close>

datatype 'c context_value = Nullish | Other | ContextValue 'c

text \<open>\<^verbatim>\<open>useContextOrig(context)[CONTEXT_VALUE]\<close>: the property read throws on a nullish value
  and gives \<^verbatim>\<open>undefined\<close> (\<open>None\<close>) where the property is absent.\<close>

fun get_CONTEXT_VALUE :: "'c context_value \<Rightarrow> 'x error + 'c option" where
  "get_CONTEXT_VALUE Nullish = Inl TypeError"
| "get_CONTEXT_VALUE Other = Inr None"
| "get_CONTEXT_VALUE (ContextValue c) = Inr (Some c)"

text \<open>
  The constants a render of \<^verbatim>\<open>useContextSelector\<close> binds and its reducer closes over:
  \<^verbatim>\<open>version\<close>, \<^verbatim>\<open>selector\<close>, and \<^verbatim>\<open>value\<close> with \<^verbatim>\<open>selected\<close>, which the reducer only ever uses
  together as \<^verbatim>\<open>{ value, selected }\<close> (\<open>read\<close>).  A selector returns \<open>Inr\<close> of its result or
  \<open>Inl\<close> of what it throws.
\<close>

record ('v, 's, 'x) closure =
  version :: int
  selector :: "'v \<Rightarrow> 'x + 's"
  read :: "('v, 's) sel_state"

text \<open>
  The render part of \<^verbatim>\<open>useContextSelector(context, selector)\<close>, lines 124 to 137.
  \<open>dev\<close> is \<^verbatim>\<open>typeof process === 'object' && process.env.NODE_ENV !== 'production'\<close>.
  Destructuring \<^verbatim>\<open>undefined\<close> is a \<^verbatim>\<open>TypeError\<close>; \<^verbatim>\<open>selector(value)\<close> is called outside any
  \<^verbatim>\<open>try\<close>, so what it throws leaves the hook.  The hook returns \<open>selected (read c)\<close>; the
  closure is what its reducer refers to.  Its layout effect (lines 159 to 164) is
  \<open>listeners_add\<close> below, its cleanup \<open>listeners_delete\<close>.
\<close>

definition useContextSelector ::
    "bool \<Rightarrow> 'v cell context_value \<Rightarrow> ('v \<Rightarrow> 'x + 's) \<Rightarrow> 'x error + ('v, 's, 'x) closure" where
  "useContextSelector dev context sel =
     (case get_CONTEXT_VALUE context of
        Inl e \<Rightarrow> Inl e
      | Inr contextValue \<Rightarrow>
          (case contextValue of
             None \<Rightarrow>
               if dev then Inl (UsageError ''useContextSelector requires special context'')
               else Inl TypeError
           | Some c \<Rightarrow>
               (case sel (valueRef c) of
                  Inl e \<Rightarrow> Inl (Thrown e)
                | Inr s \<Rightarrow>
                    Inr \<lparr>version = versionRef c, selector = sel,
                         read = \<lparr>value = valueRef c, selected = s\<rparr>\<rparr>)))"

text \<open>
  The condition of the \<^verbatim>\<open>if\<close> inside the \<^verbatim>\<open>try\<close> block, lines 144 to 146:
  \<^verbatim>\<open>next.length === 2 && (Object.is(prev.value, next[1]) || Object.is(prev.selected, selector(next[1])))\<close>.
  \<^verbatim>\<open>&&\<close> and \<^verbatim>\<open>||\<close> short-circuit, so the selector is called only on a two-element action
  whose value is not \<^verbatim>\<open>prev.value\<close>.  \<open>Inl\<close> is the selector throwing.
\<close>

fun try_condition :: "('v, 's, 'x) closure \<Rightarrow> ('v, 's) sel_state \<Rightarrow> 'v action \<Rightarrow> 'x + bool" where
  "try_condition c prev (VersionOnly ver) = Inr False"
| "try_condition c prev (VersionAndValue ver next_1) =
     (if value prev = next_1 then Inr True
      else (case selector c next_1 of
              Inl e \<Rightarrow> Inl e
            | Inr s \<Rightarrow> Inr (selected prev = s)))"

text \<open>
  The reducer, lines 138 to 158.  \<open>prev\<close> is the address of the current state; the result
  is the address of the state returned and the store after the call.  The \<^verbatim>\<open>catch\<close>
  block is empty, so after an exception control reaches \<^verbatim>\<open>return { value, selected }\<close>
  as it does when the condition is false.  The result type keeps an error side, although
  no branch of the source leaves the reducer by an exception.
\<close>

definition reducer ::
    "('v, 's, 'x) closure \<Rightarrow> ('v, 's) store \<Rightarrow> ref \<Rightarrow> 'v action
      \<Rightarrow> 'x error + (ref \<times> ('v, 's) store)" where
  "reducer c st prev next =
     (if version c < next_0 next then
        (case try_condition c (obj st prev) next of
           Inr True \<Rightarrow> Inr (prev, st)
         | Inr False \<Rightarrow> Inr (new_obj (read c) st)
         | Inl e \<Rightarrow> Inr (new_obj (read c) st))
      else if value (obj st prev) = value (read c) \<or> selected (obj st prev) = selected (read c)
        then Inr (prev, st)
      else Inr (new_obj (read c) st))"

text \<open>The state object a reducer call returned, if it returned.\<close>

fun returned :: "'x error + (ref \<times> ('v, 's) store) \<Rightarrow> ('v, 's) sel_state option" where
  "returned (Inl e) = None"
| "returned (Inr (r, st)) = Some (obj st r)"

section \<open>The Provider\<close>

text \<open>
  The world a Provider lives in: its cell; the dependency array \<^verbatim>\<open>[value]\<close> its layout
  effect last ran with (\<open>None\<close> before the first commit); the state of the component that
  renders the Provider, which is the \<^verbatim>\<open>value\<close> prop of its next render (\<open>host\<close>); and the
  trace of what has been observable from outside so far.  A thunk is code of the host;
  the refs and the set are reachable only through the private symbol, so a thunk cannot
  assign to them.  A thunk is taken to be a change of the host's state (the
  \<^verbatim>\<open>setState(...)\<close> of the documentation's example); one that calls \<^verbatim>\<open>update\<close> again is two
  \<open>Update\<close> steps below.
\<close>

type_synonym 'v thunk = "'v \<Rightarrow> 'v"

datatype 'v event =
    BatchStart
  | BatchEnd
  | Broadcast "'v action" "lid list"   \<comment> \<open>one \<^verbatim>\<open>forEach\<close> pass: the action, the listeners called, in order\<close>
  | ThunkRun

record 'v world =
  cell :: "'v cell"
  deps :: "'v option"
  host :: 'v
  log :: "'v event list"

definition emit :: "'v event \<Rightarrow> 'v world \<Rightarrow> 'v world" where
  "emit e w = w\<lparr>log := log w @ [e]\<rparr>"

text \<open>
  \<^verbatim>\<open>listeners.forEach((listener) => listener(a))\<close>, where the argument \<open>a\<close> is built from the
  refs when the callback runs.  A listener is a \<^verbatim>\<open>dispatch\<close>: it hands the action to the
  consumer's reducer and touches neither the refs nor the set.
\<close>

definition forEach_listener :: "('v world \<Rightarrow> 'v action) \<Rightarrow> 'v world \<Rightarrow> 'v world" where
  "forEach_listener a w = emit (Broadcast (a w) (listeners (cell w))) w"

text \<open>\<^verbatim>\<open>thunk()\<close>.\<close>

definition run_thunk :: "'v thunk \<Rightarrow> 'v world \<Rightarrow> 'v world" where
  "run_thunk thunk w = emit ThunkRun (w\<lparr>host := thunk (host w)\<rparr>)"

text \<open>
  Modelled from the spec: \<^verbatim>\<open>batchedUpdates\<close> is imported from \<^verbatim>\<open>./batchedUpdates\<close>, which is
  not among the sources.  The spec describes the primitive as one that "executes a
  callback such that any state changes scheduled inside it are applied and rendered in a
  single pass": the callback runs at once, between the two marks of the batch.
\<close>

definition batchedUpdates :: "('v world \<Rightarrow> 'v world) \<Rightarrow> 'v world \<Rightarrow> 'v world" where
  "batchedUpdates f w = emit BatchEnd (f (emit BatchStart w))"

text \<open>
  \<^verbatim>\<open>runWithPriority(NormalPriority, f)\<close> of the \<^verbatim>\<open>scheduler\<close> package runs \<open>f\<close> at once, under
  the given priority.
\<close>

datatype priority = NormalPriority

definition runWithPriority :: "priority \<Rightarrow> ('v world \<Rightarrow> 'v world) \<Rightarrow> 'v world \<Rightarrow> 'v world" where
  "runWithPriority p f w = f w"

text \<open>The closure \<^verbatim>\<open>update\<close> of \<^verbatim>\<open>createProvider\<close>, lines 52 to 58.\<close>

definition update :: "'v thunk \<Rightarrow> 'v world \<Rightarrow> 'v world" where
  "update thunk =
     batchedUpdates (\<lambda>w.
       let w1 = w\<lparr>cell := (cell w)\<lparr>versionRef := versionRef (cell w) + 1\<rparr>\<rparr>;
           w2 = forEach_listener (\<lambda>w. VersionOnly (versionRef (cell w))) w1
       in run_thunk thunk w2)"

text \<open>The callback of the Provider's layout effect, lines 69 to 75.\<close>

definition layout_effect :: "'v \<Rightarrow> 'v world \<Rightarrow> 'v world" where
  "layout_effect val w =
     (let w1 = w\<lparr>cell := (cell w)\<lparr>valueRef := val\<rparr>\<rparr>;
          w2 = w1\<lparr>cell := (cell w1)\<lparr>versionRef := versionRef (cell w1) + 1\<rparr>\<rparr>
      in runWithPriority NormalPriority
           (forEach_listener (\<lambda>w. VersionAndValue (versionRef (cell w)) val)) w2)"

text \<open>
  The first render of the component \<^verbatim>\<open>createProvider\<close> returns, with prop \<open>val\<close> (lines 47
  to 67): the refs are created, the set of listeners is empty, no effect has run.
\<close>

definition Provider_mount :: "'v \<Rightarrow> 'v world" where
  "Provider_mount val =
     \<lparr>cell = \<lparr>valueRef = val, versionRef = 0, listeners = [], u = ProviderUpdate\<rparr>,
      deps = None, host = val, log = []\<rparr>"

text \<open>
  A render of the Provider with prop \<open>val\<close> has committed.  A later render creates
  nothing (\<^verbatim>\<open>contextValue.current\<close> is set); the effect has the dependencies \<^verbatim>\<open>[value]\<close>, so
  React runs it after the first commit and after a commit whose \<^verbatim>\<open>value\<close> is not
  \<^verbatim>\<open>Object.is\<close> the one it last ran with.
\<close>

definition commit :: "'v \<Rightarrow> 'v world \<Rightarrow> 'v world" where
  "commit val w = (if deps w = Some val then w else layout_effect val (w\<lparr>deps := Some val\<rparr>))"

text \<open>\<^verbatim>\<open>listeners.add(dispatch)\<close> and \<^verbatim>\<open>listeners.delete(dispatch)\<close>, lines 160 and 162.\<close>

definition listeners_add :: "lid \<Rightarrow> 'v world \<Rightarrow> 'v world" where
  "listeners_add x w =
     w\<lparr>cell := (cell w)\<lparr>listeners :=
       (if x \<in> set (listeners (cell w)) then listeners (cell w) else listeners (cell w) @ [x])\<rparr>\<rparr>"

definition listeners_delete :: "lid \<Rightarrow> 'v world \<Rightarrow> 'v world" where
  "listeners_delete x w = w\<lparr>cell := (cell w)\<lparr>listeners := removeAll x (listeners (cell w))\<rparr>\<rparr>"

text \<open>
  The entry \<^verbatim>\<open>u\<close> of a cell, called: \<^verbatim>\<open>(f) => f()\<close> of \<^verbatim>\<open>createContext\<close> (line 96), or a
  Provider's \<^verbatim>\<open>update\<close>.
\<close>

fun call_u :: "updater \<Rightarrow> 'v thunk \<Rightarrow> 'v world \<Rightarrow> 'v world" where
  "call_u DefaultU f w = run_thunk f w"
| "call_u ProviderUpdate f w = update f w"

text \<open>\<^verbatim>\<open>useContextUpdate(context)\<close>, lines 192 to 203; it returns the entry \<^verbatim>\<open>u\<close>.\<close>

definition useContextUpdate ::
    "bool \<Rightarrow> 'v cell context_value \<Rightarrow> 'x error + ('v thunk \<Rightarrow> 'v world \<Rightarrow> 'v world)" where
  "useContextUpdate dev context =
     (case get_CONTEXT_VALUE context of
        Inl e \<Rightarrow> Inl e
      | Inr contextValue \<Rightarrow>
          (case contextValue of
             None \<Rightarrow>
               if dev then Inl (UsageError ''useContextUpdate requires special context'')
               else Inl TypeError
           | Some c \<Rightarrow> Inr (call_u (u c))))"

text \<open>
  What can happen to a mounted Provider, one step at a time: a producer calls
  \<^verbatim>\<open>update(thunk)\<close>; the host changes its state outside any \<^verbatim>\<open>update\<close>; the Provider is
  rendered with the host's state as \<^verbatim>\<open>value\<close> and commits; a consumer's effect adds its
  listener, or its cleanup deletes it.
\<close>

datatype 'v op = Update "'v thunk" | SetState "'v thunk" | Commit | Subscribe lid | Unsubscribe lid

fun step :: "'v op \<Rightarrow> 'v world \<Rightarrow> 'v world" where
  "step (Update thunk) w = update thunk w"
| "step (SetState f) w = w\<lparr>host := f (host w)\<rparr>"
| "step Commit w = commit (host w) w"
| "step (Subscribe x) w = listeners_add x w"
| "step (Unsubscribe x) w = listeners_delete x w"

fun run :: "'v op list \<Rightarrow> 'v world \<Rightarrow> 'v world" where
  "run [] w = w"
| "run (x # xs) w = run xs (step x w)"

text \<open>The versions the broadcasts of a trace carry, in order.\<close>

fun versions :: "'v event list \<Rightarrow> int list" where
  "versions [] = []"
| "versions (Broadcast a ls # es) = next_0 a # versions es"
| "versions (e # es) = versions es"

text \<open>The calls of listeners in a trace, in order: which listener, with which action.\<close>

fun deliveries :: "'v event list \<Rightarrow> (lid \<times> 'v action) list" where
  "deliveries [] = []"
| "deliveries (Broadcast a ls # es) = map (\<lambda>i. (i, a)) ls @ deliveries es"
| "deliveries (e # es) = deliveries es"

text \<open>The address a reducer call returned, if it returned.\<close>

fun returned_ref :: "'x error + (ref \<times> ('v, 's) store) \<Rightarrow> ref option" where
  "returned_ref (Inl e) = None"
| "returned_ref (Inr (r, st)) = Some r"

text \<open>Whether a call ended in the \<^verbatim>\<open>Error\<close> that the hooks raise themselves.\<close>

fun is_UsageError :: "'x error + 'a \<Rightarrow> bool" where
  "is_UsageError (Inl (UsageError msg)) = True"
| "is_UsageError r = False"

text \<open>
  Two invariants of a Provider's world.  Every broadcast so far carried a version the
  counter has reached, and the versions went up from one broadcast to the next.  The
  same holds call by call: of two calls of listeners, the later one carries the same
  action (it belongs to the same pass) or a greater version.
\<close>

definition versions_ok :: "'v world \<Rightarrow> bool" where
  "versions_ok w =
     (sorted_wrt (<) (versions (log w))
      \<and> list_all (\<lambda>x. x \<le> versionRef (cell w)) (versions (log w)))"

definition in_order :: "(lid \<times> 'v action) \<Rightarrow> (lid \<times> 'v action) \<Rightarrow> bool" where
  "in_order d e = (snd d = snd e \<or> next_0 (snd d) < next_0 (snd e))"

definition deliveries_ok :: "'v world \<Rightarrow> bool" where
  "deliveries_ok w =
     (sorted_wrt in_order (deliveries (log w))
      \<and> list_all (\<lambda>d. next_0 (snd d) \<le> versionRef (cell w)) (deliveries (log w)))"

section \<open>Concrete scenarios\<close>

text \<open>
  A consumer that selects with the identity, rendered when the cell held the value 0 at
  version 0, and a store whose only allocated object, at address 0, is that consumer's
  state \<^verbatim>\<open>{ value: 0, selected: 0 }\<close>.
\<close>

definition consumer0 :: "(nat, nat, unit) closure" where
  "consumer0 = \<lparr>version = 0, selector = Inr, read = \<lparr>value = 0, selected = 0\<rparr>\<rparr>"

definition store0 :: "(nat, nat) store" where
  "store0 = \<lparr>obj = (\<lambda>r. \<lparr>value = 0, selected = 0\<rparr>), fresh = 1\<rparr>"

text \<open>A selector that throws on every value but 0.\<close>

definition stale_selector :: "nat \<Rightarrow> unit + nat" where
  "stale_selector x = (if x = 0 then Inr 0 else Inl ())"

text \<open>
  A Provider mounted with the value 1, one consumer (listener 7) subscribed, the first
  commit done: the cell holds 1 at version 1.
\<close>

definition world1 :: "nat world" where
  "world1 = run [Subscribe 7, Commit] (Provider_mount 1)"

text \<open>A consumer's state \<^verbatim>\<open>{ value: 1, selected: 1 }\<close> at address 0.\<close>

definition store1 :: "(nat, nat) store" where
  "store1 = \<lparr>obj = (\<lambda>r. \<lparr>value = 1, selected = 1\<rparr>), fresh = 1\<rparr>"

text \<open>A consumer that selects with the identity, rendered against that cell.\<close>

definition consumer1 :: "(nat, nat, unit) closure" where
  "consumer1 = \<lparr>version = 1, selector = Inr, read = \<lparr>value = 1, selected = 1\<rparr>\<rparr>"

text \<open>
  A consumer that selects the last digit.  It renders against a Provider that holds 10
  at version 1, and its state \<^verbatim>\<open>{ value: 10, selected: 0 }\<close> is at address 0.  Then the host
  sets 20 and the Provider commits (the action \<^verbatim>\<open>[2, 20]\<close>), and then a producer calls
  \<^verbatim>\<open>update\<close> with a thunk that does nothing (the action \<^verbatim>\<open>[3]\<close>).
\<close>

definition last_digit :: "nat \<Rightarrow> unit + nat" where
  "last_digit x = Inr (x mod 10)"

definition set20 :: "nat thunk" where
  "set20 x = 20"

definition world10 :: "nat world" where
  "world10 = run [Subscribe 7, Commit] (Provider_mount 10)"

definition consumer10 :: "(nat, nat, unit) closure" where
  "consumer10 = \<lparr>version = 1, selector = last_digit, read = \<lparr>value = 10, selected = 0\<rparr>\<rparr>"

definition store10 :: "(nat, nat) store" where
  "store10 = \<lparr>obj = (\<lambda>r. \<lparr>value = 10, selected = 0\<rparr>), fresh = 1\<rparr>"

definition world20 :: "nat world" where
  "world20 = run [SetState set20, Commit, Update id] world10"

text \<open>The world of a context with no Provider mounted: the default cell, two consumers
  subscribed to it.\<close>

definition default_world :: "nat world" where
  "default_world =
     \<lparr>cell = (createContext 0)\<lparr>listeners := [3, 4]\<rparr>, deps = None, host = 0, log = []\<rparr>"

section \<open>Facts about the model\<close>

lemma update_eq:
  "update thunk w =
     w\<lparr>cell := (cell w)\<lparr>versionRef := versionRef (cell w) + 1\<rparr>,
       host := thunk (host w),
       log := log w @ [BatchStart,
                       Broadcast (VersionOnly (versionRef (cell w) + 1)) (listeners (cell w)),
                       ThunkRun, BatchEnd]\<rparr>"
  by (simp add: update_def batchedUpdates_def forEach_listener_def run_thunk_def emit_def Let_def)

lemma layout_effect_eq:
  "layout_effect val w =
     w\<lparr>cell := (cell w)\<lparr>valueRef := val, versionRef := versionRef (cell w) + 1\<rparr>,
       log := log w @ [Broadcast (VersionAndValue (versionRef (cell w) + 1) val)
                         (listeners (cell w))]\<rparr>"
  by (simp add: layout_effect_def runWithPriority_def forEach_listener_def emit_def Let_def)

lemma commit_eq:
  "commit val w =
     (if deps w = Some val then w
      else w\<lparr>cell := (cell w)\<lparr>valueRef := val, versionRef := versionRef (cell w) + 1\<rparr>,
             deps := Some val,
             log := log w @ [Broadcast (VersionAndValue (versionRef (cell w) + 1) val)
                               (listeners (cell w))]\<rparr>)"
  by (simp add: commit_def layout_effect_eq)

lemma versions_append: "versions (xs @ ys) = versions xs @ versions ys"
  by (induction xs rule: versions.induct) simp_all

lemma deliveries_append: "deliveries (xs @ ys) = deliveries xs @ deliveries ys"
  by (induction xs rule: deliveries.induct) simp_all

lemma useContextSelector_Inr:
  "useContextSelector dev (ContextValue c0) sel = Inr c \<Longrightarrow>
     version c = versionRef c0 \<and> selector c = sel \<and> value (read c) = valueRef c0
     \<and> sel (valueRef c0) = Inr (selected (read c))"
  by (auto simp: useContextSelector_def split: sum.splits)

lemma world1_eq:
  "world1 =
     \<lparr>cell = \<lparr>valueRef = 1, versionRef = 1, listeners = [7], u = ProviderUpdate\<rparr>,
      deps = Some 1, host = 1, log = [Broadcast (VersionAndValue 1 1) [7]]\<rparr>"
  by (simp add: world1_def Provider_mount_def listeners_add_def commit_eq)

lemma world10_eq:
  "world10 =
     \<lparr>cell = \<lparr>valueRef = 10, versionRef = 1, listeners = [7], u = ProviderUpdate\<rparr>,
      deps = Some 10, host = 10, log = [Broadcast (VersionAndValue 1 10) [7]]\<rparr>"
  by (simp add: world10_def Provider_mount_def listeners_add_def commit_eq)

subsection \<open>The version counter never goes down\<close>

lemma step_versionRef: "versionRef (cell w) \<le> versionRef (cell (step x w))"
  by (cases x) (simp_all add: update_eq commit_eq listeners_add_def listeners_delete_def)

lemma run_versionRef: "versionRef (cell w) \<le> versionRef (cell (run xs w))"
proof (induction xs arbitrary: w)
  case Nil
  show ?case by simp
next
  case (Cons x xs)
  have "versionRef (cell w) \<le> versionRef (cell (step x w))"
    by (rule step_versionRef)
  also have "\<dots> \<le> versionRef (cell (run xs (step x w)))"
    by (rule Cons.IH)
  finally show ?case by simp
qed

subsection \<open>The invariants hold in every world a mounted Provider can reach\<close>

lemma step_versions_ok: "versions_ok w \<Longrightarrow> versions_ok (step x w)"
  by (cases x)
     (auto simp: versions_ok_def update_eq commit_eq listeners_add_def listeners_delete_def
        versions_append sorted_wrt_append list_all_iff)

lemma run_versions_ok: "versions_ok w \<Longrightarrow> versions_ok (run xs w)"
  by (induction xs arbitrary: w) (simp_all add: step_versions_ok)

lemma mount_versions_ok: "versions_ok (Provider_mount val)"
  by (simp add: versions_ok_def Provider_mount_def)

lemma step_deliveries_ok: "deliveries_ok w \<Longrightarrow> deliveries_ok (step x w)"
  by (cases x)
     (auto simp: deliveries_ok_def update_eq commit_eq listeners_add_def listeners_delete_def
        deliveries_append sorted_wrt_append list_all_iff in_order_def sorted_wrt_map)

lemma run_deliveries_ok: "deliveries_ok w \<Longrightarrow> deliveries_ok (run xs w)"
  by (induction xs arbitrary: w) (simp_all add: step_deliveries_ok)

lemma mount_deliveries_ok: "deliveries_ok (Provider_mount val)"
  by (simp add: deliveries_ok_def Provider_mount_def)

lemma phase_order:
  assumes "sorted_wrt in_order (xs @ (j, VersionAndValue k x) # ys)"
      and "(i, VersionOnly ver) \<in> set ys"
  shows "k < ver"
  using assms by (auto simp: sorted_wrt_append in_order_def)

section \<open>The claims\<close>

text \<open>
  C1.  The version counter strictly increases.  Each phase adds exactly 1 to it: the
  call of \<^verbatim>\<open>update\<close> (phase 1) and the Provider's layout effect (phase 2).  No step of
  a Provider's life lowers it.  In every trace a mounted Provider can produce, whatever
  the sequence of updates, host state changes, commits and subscriptions, the versions
  carried by the broadcasts go strictly up, so no two broadcasts carry the same version.
\<close>

theorem version_strictly_increases:
  "versionRef (cell (update thunk w)) = versionRef (cell w) + 1
   \<and> versionRef (cell (layout_effect val w)) = versionRef (cell w) + 1
   \<and> versionRef (cell w) \<le> versionRef (cell (run ops w))
   \<and> sorted_wrt (<) (versions (log (run ops (Provider_mount val))))
   \<and> distinct (versions (log (run ops (Provider_mount val))))"
proof -
  have "versions_ok (run ops (Provider_mount val))"
    by (rule run_versions_ok[OF mount_versions_ok])
  then have s: "sorted_wrt (<) (versions (log (run ops (Provider_mount val))))"
    by (simp add: versions_ok_def)
  then have d: "distinct (versions (log (run ops (Provider_mount val))))"
    by (simp add: strict_sorted_iff)
  have "versionRef (cell (update thunk w)) = versionRef (cell w) + 1"
    by (simp add: update_eq)
  moreover have "versionRef (cell (layout_effect val w)) = versionRef (cell w) + 1"
    by (simp add: layout_effect_eq)
  moreover have "versionRef (cell w) \<le> versionRef (cell (run ops w))"
    by (rule run_versionRef)
  ultimately show ?thesis using s d by blast
qed

text \<open>
  C2.  Phase 1 comes before phase 2.  One update followed by the Provider's commit calls
  every listener with the one-element action of the new version, and only then, if the
  value changed, every listener with the two-element action, which carries the version
  after that.  And in every trace a mounted Provider can produce, a one-element action
  that is delivered after a two-element action carries a strictly greater version: the
  one-element action of version \<open>ver\<close> never follows a two-element action of version
  \<open>ver\<close> or later.
\<close>

theorem phase_one_before_phase_two:
  "deliveries (log (run [Update thunk, Commit] w)) =
     deliveries (log w)
     @ map (\<lambda>i. (i, VersionOnly (versionRef (cell w) + 1))) (listeners (cell w))
     @ (if deps w = Some (thunk (host w)) then []
        else map (\<lambda>i. (i, VersionAndValue (versionRef (cell w) + 2) (thunk (host w))))
               (listeners (cell w)))
   \<and> (deliveries (log (run ops (Provider_mount val))) = xs @ (j, VersionAndValue k x) # ys
        \<longrightarrow> (i, VersionOnly ver) \<in> set ys \<longrightarrow> k < ver)"
proof (intro conjI impI)
  show "deliveries (log (run [Update thunk, Commit] w)) =
     deliveries (log w)
     @ map (\<lambda>i. (i, VersionOnly (versionRef (cell w) + 1))) (listeners (cell w))
     @ (if deps w = Some (thunk (host w)) then []
        else map (\<lambda>i. (i, VersionAndValue (versionRef (cell w) + 2) (thunk (host w))))
               (listeners (cell w)))"
    by (simp add: update_eq commit_eq deliveries_append)
next
  assume eq: "deliveries (log (run ops (Provider_mount val))) = xs @ (j, VersionAndValue k x) # ys"
     and later: "(i, VersionOnly ver) \<in> set ys"
  have "deliveries_ok (run ops (Provider_mount val))"
    by (rule run_deliveries_ok[OF mount_deliveries_ok])
  then have "sorted_wrt in_order (xs @ (j, VersionAndValue k x) # ys)"
    by (simp add: deliveries_ok_def eq)
  then show "k < ver" using later by (rule phase_order)
qed

text \<open>Mount with 0, one consumer subscribes, first commit, one update to 5, commit: the
  consumer is called with \<^verbatim>\<open>[1, 0]\<close>, then \<^verbatim>\<open>[2]\<close>, then \<^verbatim>\<open>[3, 5]\<close>.\<close>

theorem phase_one_before_phase_two_witness:
  "deliveries (log (run [Subscribe 7, Commit, Update (\<lambda>x. 5), Commit] (Provider_mount (0::nat)))) =
     [] @ (7, VersionAndValue 1 0) # [(7, VersionOnly 2), (7, VersionAndValue 3 5)]
   \<and> (7, VersionOnly 2) \<in> set [(7, VersionOnly 2), (7, VersionAndValue 3 (5::nat))]
   \<and> (1::int) < 2"
proof -
  have d: "deliveries (log (run [Subscribe 7, Commit, Update (\<lambda>x. 5), Commit] (Provider_mount (0::nat)))) =
     [] @ (7, VersionAndValue 1 0) # [(7, VersionOnly 2), (7, VersionAndValue 3 5)]"
    by (simp add: Provider_mount_def listeners_add_def commit_eq update_eq)
  have m: "(7, VersionOnly 2) \<in> set [(7, VersionOnly 2), (7, VersionAndValue 3 (5::nat))]"
    by simp
  have "(1::int) < 2"
    using phase_one_before_phase_two[THEN conjunct2, rule_format, OF d m] .
  with d m show ?thesis by blast
qed

text \<open>
  C3.  \<^verbatim>\<open>update(thunk)\<close> does, inside one batch and in this order: add 1 to the version,
  call every listener that is in the set with the one-element action of the new
  version, run the thunk.  It does nothing else: the value of the cell and the set of
  listeners are as before.
\<close>

theorem update_performs:
  "update thunk w =
     w\<lparr>cell := (cell w)\<lparr>versionRef := versionRef (cell w) + 1\<rparr>,
       host := thunk (host w),
       log := log w @ [BatchStart,
                       Broadcast (VersionOnly (versionRef (cell w) + 1)) (listeners (cell w)),
                       ThunkRun, BatchEnd]\<rparr>
   \<and> valueRef (cell (update thunk w)) = valueRef (cell w)
   \<and> listeners (cell (update thunk w)) = listeners (cell w)
   \<and> deliveries (log (update thunk w)) =
       deliveries (log w)
       @ map (\<lambda>i. (i, VersionOnly (versionRef (cell w) + 1))) (listeners (cell w))"
  by (simp add: update_eq deliveries_append)

text \<open>
  C4 (as amended).  On a two-element action \<^verbatim>\<open>[ver, nv]\<close> whose version is greater than the
  one the render observed, the reducer returns \<^verbatim>\<open>prev\<close> itself if \<open>nv\<close> is \<^verbatim>\<open>prev.value\<close> or
  the selector returns \<^verbatim>\<open>prev.selected\<close> on \<open>nv\<close>.  Otherwise it returns a new object, at
  an address other than that of \<^verbatim>\<open>prev\<close>, which holds the \<^verbatim>\<open>{ value, selected }\<close> its render
  read from the cell, not the value of the notification.
\<close>

theorem newer_value_bails_out_or_schedules:
  assumes "version c < ver" and "prev < fresh st"
  shows "reducer c st prev (VersionAndValue ver nv) =
           (if value (obj st prev) = nv \<or> selector c nv = Inr (selected (obj st prev))
            then Inr (prev, st) else Inr (new_obj (read c) st))
         \<and> returned_ref (Inr (new_obj (read c) st) :: 'x error + (ref \<times> ('v, 's) store)) \<noteq> Some prev
         \<and> returned (Inr (new_obj (read c) st) :: 'x error + (ref \<times> ('v, 's) store)) = Some (read c)"
  using assms by (auto simp: reducer_def new_obj_def split: sum.splits)

text \<open>The consumer of the scenario, its state at address 0, and the action \<^verbatim>\<open>[1, 0]\<close>: the
  value is \<^verbatim>\<open>prev.value\<close>, the reducer returns \<^verbatim>\<open>prev\<close>.\<close>

theorem newer_value_bails_out_or_schedules_witness:
  "version consumer0 < 1 \<and> 0 < fresh store0
   \<and> reducer consumer0 store0 0 (VersionAndValue 1 0) = Inr (0, store0)"
  using newer_value_bails_out_or_schedules[of consumer0 1 0 store0 0]
  by (simp add: consumer0_def store0_def reducer_def new_obj_def)

text \<open>
  The claim as stated fails.  The consumer rendered at version 0 with the value 0 and
  holds \<^verbatim>\<open>{ value: 0, selected: 0 }\<close>; the action \<^verbatim>\<open>[1, 5]\<close> arrives.  5 is not \<^verbatim>\<open>prev.value\<close>
  and the selection of 5 is not \<^verbatim>\<open>prev.selected\<close>, yet the state returned is
  \<^verbatim>\<open>{ value: 0, selected: 0 }\<close> and not \<^verbatim>\<open>{ value: 5, selected: 5 }\<close>.
\<close>

theorem newer_value_not_adopted:
  "version consumer0 < 1
   \<and> value (obj store0 0) \<noteq> 5
   \<and> selector consumer0 5 \<noteq> Inr (selected (obj store0 0))
   \<and> selector consumer0 5 = Inr 5
   \<and> returned (reducer consumer0 store0 0 (VersionAndValue 1 5)) = Some \<lparr>value = 0, selected = 0\<rparr>
   \<and> returned (reducer consumer0 store0 0 (VersionAndValue 1 5)) \<noteq> Some \<lparr>value = 5, selected = 5\<rparr>"
  by (simp add: consumer0_def store0_def reducer_def new_obj_def)

text \<open>
  C5 (as amended).  On a one-element action whose version is greater than the one the
  render read from the cell, the reducer returns, whatever \<^verbatim>\<open>prev\<close> holds, a new object:
  its address is the next free one and so is not the address of \<^verbatim>\<open>prev\<close>.  The object
  holds the value the hook's render read from the cell and the selector's result on that
  value; the reducer does not read the cell again.  When the consumer has rendered
  against the very cell on which \<^verbatim>\<open>update\<close> is then called, the action of that update is
  newer than the render and the value in the object is the cell's value at that time.
\<close>

theorem version_only_forces_update:
  assumes "useContextSelector dev (ContextValue c0) sel = Inr c"
      and "versionRef c0 < ver" and "prev < fresh st"
  shows "reducer c st prev (VersionOnly ver) = Inr (new_obj (read c) st)
       \<and> returned_ref (reducer c st prev (VersionOnly ver)) = Some (fresh st)
       \<and> returned_ref (reducer c st prev (VersionOnly ver)) \<noteq> Some prev
       \<and> returned (reducer c st prev (VersionOnly ver)) = Some (read c)
       \<and> value (read c) = valueRef c0
       \<and> sel (valueRef c0) = Inr (selected (read c))
       \<and> (c0 = cell w \<longrightarrow>
            versionRef c0 < versionRef (cell (update thunk w))
            \<and> returned (reducer c st prev (VersionOnly (versionRef (cell (update thunk w)))))
                = Some \<lparr>value = valueRef (cell (update thunk w)), selected = selected (read c)\<rparr>
            \<and> sel (valueRef (cell (update thunk w))) = Inr (selected (read c)))"
proof -
  note r = useContextSelector_Inr[OF assms(1)]
  have general: "reducer c st prev (VersionOnly ver) = Inr (new_obj (read c) st)
       \<and> returned_ref (reducer c st prev (VersionOnly ver)) = Some (fresh st)
       \<and> returned_ref (reducer c st prev (VersionOnly ver)) \<noteq> Some prev
       \<and> returned (reducer c st prev (VersionOnly ver)) = Some (read c)
       \<and> value (read c) = valueRef c0
       \<and> sel (valueRef c0) = Inr (selected (read c))"
    using assms r by (simp add: reducer_def new_obj_def)
  have in_step: "c0 = cell w \<longrightarrow>
            versionRef c0 < versionRef (cell (update thunk w))
            \<and> returned (reducer c st prev (VersionOnly (versionRef (cell (update thunk w)))))
                = Some \<lparr>value = valueRef (cell (update thunk w)), selected = selected (read c)\<rparr>
            \<and> sel (valueRef (cell (update thunk w))) = Inr (selected (read c))"
  proof
    assume "c0 = cell w"
    then have "version c = versionRef (cell w)" "value (read c) = valueRef (cell w)"
      "sel (valueRef (cell w)) = Inr (selected (read c))"
      using r by simp_all
    then show "versionRef c0 < versionRef (cell (update thunk w))
            \<and> returned (reducer c st prev (VersionOnly (versionRef (cell (update thunk w)))))
                = Some \<lparr>value = valueRef (cell (update thunk w)), selected = selected (read c)\<rparr>
            \<and> sel (valueRef (cell (update thunk w))) = Inr (selected (read c))"
      using \<open>c0 = cell w\<close> by (simp add: update_eq reducer_def new_obj_def)
  qed
  from general in_step show ?thesis by blast
qed

text \<open>The consumer of the first scenario rendered against a Provider just mounted with
  0; the action \<^verbatim>\<open>[1]\<close> makes its reducer return a new object at address 1.\<close>

theorem version_only_forces_update_witness:
  "useContextSelector True (ContextValue (cell (Provider_mount 0))) Inr = Inr consumer0
   \<and> versionRef (cell (Provider_mount (0::nat))) < 1 \<and> 0 < fresh store0
   \<and> returned_ref (reducer consumer0 store0 0 (VersionOnly 1)) = Some 1
   \<and> returned (reducer consumer0 store0 0 (VersionOnly 1)) = Some \<lparr>value = 0, selected = 0\<rparr>
   \<and> versionRef (cell (update id (Provider_mount (0::nat)))) = 1
   \<and> valueRef (cell (update id (Provider_mount (0::nat)))) = 0"
proof -
  have r: "useContextSelector True (ContextValue (cell (Provider_mount 0))) Inr = Inr consumer0"
    by (simp add: useContextSelector_def Provider_mount_def consumer0_def)
  have v: "versionRef (cell (Provider_mount (0::nat))) < 1"
    by (simp add: Provider_mount_def)
  have p: "0 < fresh store0"
    by (simp add: store0_def)
  from version_only_forces_update[OF r v p, of "Provider_mount 0" id] r v p show ?thesis
    by (simp add: consumer0_def store0_def reducer_def new_obj_def update_eq Provider_mount_def)
qed

text \<open>
  The claim as stated fails.  The consumer of the last-digit scenario rendered when the
  cell held 10.  For \<^verbatim>\<open>[2, 20]\<close> its reducer returns \<^verbatim>\<open>prev\<close>, since the selection of 20 is
  still 0, so React does not render it and its reducer stays the one of that render.
  When \<^verbatim>\<open>[3]\<close> arrives the cell holds 20, and the object the reducer returns holds 10.
\<close>

theorem version_only_state_is_stale:
  "useContextSelector True (ContextValue (cell world10)) last_digit = Inr consumer10
   \<and> obj store10 0 = read consumer10
   \<and> deliveries (log world20)
       = deliveries (log world10) @ [(7, VersionAndValue 2 20), (7, VersionOnly 3)]
   \<and> reducer consumer10 store10 0 (VersionAndValue 2 20) = Inr (0, store10)
   \<and> version consumer10 < 3
   \<and> valueRef (cell world20) = 20
   \<and> last_digit (valueRef (cell world20)) = Inr 0
   \<and> returned (reducer consumer10 store10 0 (VersionOnly 3)) = Some \<lparr>value = 10, selected = 0\<rparr>
   \<and> returned (reducer consumer10 store10 0 (VersionOnly 3))
       \<noteq> Some \<lparr>value = valueRef (cell world20), selected = 0\<rparr>"
  by (simp add: world20_def world10_eq update_eq commit_eq useContextSelector_def
        consumer10_def store10_def last_digit_def set20_def reducer_def new_obj_def)

text \<open>
  C6.  When the reducer calls the selector on the value of a newer two-element action
  and the selector throws, the reducer returns all the same, and what it returns is a
  new object at an address other than that of \<^verbatim>\<open>prev\<close>, holding its render's
  \<^verbatim>\<open>{ value, selected }\<close>: the update is scheduled, not dropped, and \<^verbatim>\<open>prev\<close> is not
  returned.  No call of the reducer, on any action, ends in an exception.
\<close>

theorem selector_exception_is_swallowed:
  assumes "version c < ver" and "value (obj st prev) \<noteq> nv" and "selector c nv = Inl e"
      and "prev < fresh st"
  shows "reducer c st prev (VersionAndValue ver nv) = Inr (new_obj (read c) st)
       \<and> returned_ref (reducer c st prev (VersionAndValue ver nv)) = Some (fresh st)
       \<and> returned_ref (reducer c st prev (VersionAndValue ver nv)) \<noteq> Some prev
       \<and> returned (reducer c st prev (VersionAndValue ver nv)) = Some (read c)
       \<and> \<not> isl (reducer c st' prev' a)"
proof -
  have "\<not> isl (reducer c st' prev' a)"
    by (auto simp: reducer_def split: sum.splits bool.splits)
  then show ?thesis using assms by (simp add: reducer_def new_obj_def)
qed

text \<open>The selector throws on 5; the action \<^verbatim>\<open>[1, 5]\<close> makes the reducer return a new object
  at address 1.\<close>

theorem selector_exception_is_swallowed_witness:
  "version (consumer0\<lparr>selector := stale_selector\<rparr>) < 1
   \<and> value (obj store0 0) \<noteq> 5
   \<and> selector (consumer0\<lparr>selector := stale_selector\<rparr>) 5 = Inl ()
   \<and> 0 < fresh store0
   \<and> returned_ref (reducer (consumer0\<lparr>selector := stale_selector\<rparr>) store0 0 (VersionAndValue 1 5))
       = Some 1
   \<and> returned (reducer (consumer0\<lparr>selector := stale_selector\<rparr>) store0 0 (VersionAndValue 1 5))
       = Some \<lparr>value = 0, selected = 0\<rparr>"
  using selector_exception_is_swallowed
          [of "consumer0\<lparr>selector := stale_selector\<rparr>" 1 store0 0 5 "()" store0 0 "VersionOnly 0"]
  by (simp add: consumer0_def store0_def stale_selector_def reducer_def new_obj_def)

text \<open>
  C7.  On an action whose version is not greater than the one the render read from the
  cell, the reducer returns \<^verbatim>\<open>prev\<close> itself if and only if \<^verbatim>\<open>prev.value\<close> is the cell's value
  as the render read it or \<^verbatim>\<open>prev.selected\<close> is the selection computed in that render;
  otherwise it returns a new object holding that render's \<^verbatim>\<open>{ value, selected }\<close>.
\<close>

theorem not_newer_bails_out_iff_same:
  assumes "useContextSelector dev (ContextValue c0) sel = Inr c"
      and "next_0 a \<le> versionRef c0" and "prev < fresh st"
  shows "reducer c st prev a =
           (if value (obj st prev) = valueRef c0 \<or> sel (valueRef c0) = Inr (selected (obj st prev))
            then Inr (prev, st) else Inr (new_obj (read c) st))
       \<and> (returned_ref (reducer c st prev a) = Some prev) =
           (value (obj st prev) = valueRef c0 \<or> sel (valueRef c0) = Inr (selected (obj st prev)))
       \<and> returned (Inr (new_obj (read c) st) :: 'x error + (ref \<times> ('v, 's) store)) = Some (read c)
       \<and> value (read c) = valueRef c0 \<and> sel (valueRef c0) = Inr (selected (read c))"
  using assms useContextSelector_Inr[OF assms(1)]
  by (auto simp: reducer_def new_obj_def)

text \<open>The consumer has rendered against the cell at version 1 with the value 1; its state
  still holds 0 and the selection 0.  The action \<^verbatim>\<open>[1, 1]\<close> is not newer, the state differs
  in both parts, and the reducer returns a new object with the render's read.\<close>

theorem not_newer_bails_out_iff_same_witness:
  "useContextSelector True (ContextValue (cell world1)) Inr = Inr consumer1
   \<and> next_0 (VersionAndValue 1 (1::nat)) \<le> versionRef (cell world1) \<and> 0 < fresh store0
   \<and> returned_ref (reducer consumer1 store0 0 (VersionAndValue 1 1)) = Some 1
   \<and> returned (reducer consumer1 store0 0 (VersionAndValue 1 1)) = Some \<lparr>value = 1, selected = 1\<rparr>"
proof -
  have r: "useContextSelector True (ContextValue (cell world1)) Inr = Inr consumer1"
    by (simp add: useContextSelector_def world1_eq consumer1_def)
  have v: "next_0 (VersionAndValue 1 (1::nat)) \<le> versionRef (cell world1)"
    by (simp add: world1_eq)
  have p: "0 < fresh store0"
    by (simp add: store0_def)
  from not_newer_bails_out_iff_same[OF r v p] r v p show ?thesis
    by (simp add: consumer1_def store0_def world1_eq reducer_def new_obj_def)
qed

text \<open>
  C8 (as amended).  Called with a handle whose context value lacks the cell, either hook
  fails at call time, in every environment.  What it throws is the hook's own usage
  error, \<^verbatim>\<open>Error('useContextSelector requires special context')\<close> or
  \<^verbatim>\<open>Error('useContextUpdate requires special context')\<close>, exactly when
  \<^verbatim>\<open>typeof process === 'object' && process.env.NODE_ENV !== 'production'\<close> holds and the
  context value is not \<^verbatim>\<open>undefined\<close> or \<^verbatim>\<open>null\<close>.  Where that condition is false, and on
  \<^verbatim>\<open>undefined\<close> or \<^verbatim>\<open>null\<close> whatever the condition, it throws the runtime's \<^verbatim>\<open>TypeError\<close>.
\<close>

theorem foreign_context_fails:
  "isl (useContextSelector dev Nullish sel) \<and> isl (useContextSelector dev Other sel)
   \<and> isl (useContextUpdate dev Nullish) \<and> isl (useContextUpdate dev Other)
   \<and> is_UsageError (useContextSelector dev ctx sel) = (dev \<and> ctx = Other)
   \<and> is_UsageError (useContextUpdate dev ctx) = (dev \<and> ctx = Other)
   \<and> useContextSelector True Other sel
       = Inl (UsageError ''useContextSelector requires special context'')
   \<and> useContextUpdate True Other = Inl (UsageError ''useContextUpdate requires special context'')
   \<and> useContextSelector False Other sel = Inl TypeError
   \<and> useContextUpdate False Other = Inl TypeError
   \<and> useContextSelector dev Nullish sel = Inl TypeError
   \<and> useContextUpdate dev Nullish = Inl TypeError"
  by (cases ctx) (auto simp: useContextSelector_def useContextUpdate_def split: sum.splits)

text \<open>
  The claim as stated fails.  Where the condition is false (in production), a handle
  whose context value is an object without the cell makes both hooks throw a
  \<^verbatim>\<open>TypeError\<close> and not the usage error; and a handle whose context value is \<^verbatim>\<open>null\<close> makes
  them throw a \<^verbatim>\<open>TypeError\<close> even where the condition is true.
\<close>

theorem foreign_context_no_usage_error:
  "\<not> is_UsageError (useContextSelector False (Other :: nat cell context_value)
                      (Inr :: nat \<Rightarrow> unit + nat))
   \<and> \<not> is_UsageError (useContextUpdate False (Other :: nat cell context_value)
                        :: unit error + (nat thunk \<Rightarrow> nat world \<Rightarrow> nat world))
   \<and> useContextSelector False (Other :: nat cell context_value) (Inr :: nat \<Rightarrow> unit + nat)
       = Inl TypeError
   \<and> useContextUpdate False (Other :: nat cell context_value)
       = (Inl TypeError :: unit error + (nat thunk \<Rightarrow> nat world \<Rightarrow> nat world))
   \<and> useContextSelector True (Nullish :: nat cell context_value) (Inr :: nat \<Rightarrow> unit + nat)
       = Inl TypeError
   \<and> useContextUpdate True (Nullish :: nat cell context_value)
       = (Inl TypeError :: unit error + (nat thunk \<Rightarrow> nat world \<Rightarrow> nat world))"
  by (simp add: useContextSelector_def useContextUpdate_def)

text \<open>
  C9 (as amended).  One call of \<^verbatim>\<open>update\<close> followed by the Provider's commit advances the
  version by exactly 2 when the thunk leaves the host with a value other than the one
  the Provider's effect last ran with (one bump in \<^verbatim>\<open>update\<close>, one in the effect), and by
  exactly 1 when it does not: the effect does not run again.  On such a no-op update in
  a settled world the only broadcast is the one-element action.  For it, the reducer of
  a consumer rendered before the update returns a new object, which schedules a render
  of the consumer; the reducer of that render returns \<^verbatim>\<open>prev\<close> itself when the consumer's
  selection is unchanged, so the consumer's state is as before.
\<close>

theorem update_advances_version:
  "versionRef (cell (run [Update thunk, Commit] w)) =
     versionRef (cell w) + (if deps w = Some (thunk (host w)) then 1 else 2)
   \<and> (deps w = Some (host w) \<and> thunk (host w) = host w
      \<and> useContextSelector dev (ContextValue (cell w)) sel = Inr c
      \<and> useContextSelector dev (ContextValue (cell (run [Update thunk, Commit] w))) sel = Inr c'
      \<and> prev < fresh st \<and> selected (obj st prev) = selected (read c)
      \<longrightarrow> log (run [Update thunk, Commit] w) =
            log w @ [BatchStart,
                     Broadcast (VersionOnly (versionRef (cell w) + 1)) (listeners (cell w)),
                     ThunkRun, BatchEnd]
          \<and> returned_ref (reducer c st prev (VersionOnly (versionRef (cell w) + 1)))
              = Some (fresh st)
          \<and> returned_ref (reducer c st prev (VersionOnly (versionRef (cell w) + 1)))
              \<noteq> Some prev
          \<and> reducer c' st prev (VersionOnly (versionRef (cell w) + 1)) = Inr (prev, st))"
proof (intro conjI impI)
  show "versionRef (cell (run [Update thunk, Commit] w)) =
     versionRef (cell w) + (if deps w = Some (thunk (host w)) then 1 else 2)"
    by (simp add: update_eq commit_eq)
next
  assume h: "deps w = Some (host w) \<and> thunk (host w) = host w
      \<and> useContextSelector dev (ContextValue (cell w)) sel = Inr c
      \<and> useContextSelector dev (ContextValue (cell (run [Update thunk, Commit] w))) sel = Inr c'
      \<and> prev < fresh st \<and> selected (obj st prev) = selected (read c)"
  then have noop: "deps w = Some (thunk (host w))"
    by simp
  have c: "version c = versionRef (cell w)"
    using h useContextSelector_Inr[of dev "cell w" sel c] by simp
  have after: "cell (commit (host (update thunk w)) (update thunk w))
                 = (cell w)\<lparr>versionRef := versionRef (cell w) + 1\<rparr>"
    using noop by (simp add: update_eq commit_eq)
  have c': "version c' = versionRef (cell w) + 1 \<and> selected (read c') = selected (read c)"
    using h useContextSelector_Inr[of dev "cell w" sel c]
      useContextSelector_Inr[of dev "cell (run [Update thunk, Commit] w)" sel c']
    by (simp add: after)
  show "log (run [Update thunk, Commit] w) =
            log w @ [BatchStart,
                     Broadcast (VersionOnly (versionRef (cell w) + 1)) (listeners (cell w)),
                     ThunkRun, BatchEnd]"
    using noop by (simp add: update_eq commit_eq)
  show "returned_ref (reducer c st prev (VersionOnly (versionRef (cell w) + 1))) = Some (fresh st)"
    using c by (simp add: reducer_def new_obj_def)
  show "returned_ref (reducer c st prev (VersionOnly (versionRef (cell w) + 1))) \<noteq> Some prev"
    using c h by (simp add: reducer_def new_obj_def)
  show "reducer c' st prev (VersionOnly (versionRef (cell w) + 1)) = Inr (prev, st)"
    using c' h by (simp add: reducer_def)
qed

text \<open>The Provider of the scenario holds 1 at version 1; the thunk does nothing.  The
  version becomes 2, the consumer's reducer returns a new object at address 1 for \<^verbatim>\<open>[2]\<close>,
  and the reducer of its next render returns the state at address 0.\<close>

theorem update_advances_version_witness:
  "deps world1 = Some (host world1) \<and> id (host world1) = host world1
   \<and> useContextSelector True (ContextValue (cell world1)) Inr = Inr consumer1
   \<and> useContextSelector True (ContextValue (cell (run [Update id, Commit] world1))) Inr
       = Inr (consumer1\<lparr>version := 2\<rparr>)
   \<and> 0 < fresh store1 \<and> selected (obj store1 0) = selected (read consumer1)
   \<and> versionRef (cell (run [Update id, Commit] world1)) = 2
   \<and> returned_ref (reducer consumer1 store1 0 (VersionOnly 2)) = Some 1
   \<and> reducer (consumer1\<lparr>version := 2\<rparr>) store1 0 (VersionOnly 2) = Inr (0, store1)"
proof -
  have h: "deps world1 = Some (host world1) \<and> id (host world1) = host world1
      \<and> useContextSelector True (ContextValue (cell world1)) Inr = Inr consumer1
      \<and> useContextSelector True (ContextValue (cell (run [Update id, Commit] world1))) Inr
          = Inr (consumer1\<lparr>version := 2\<rparr>)
      \<and> 0 < fresh store1 \<and> selected (obj store1 0) = selected (read consumer1)"
    by (simp add: world1_eq useContextSelector_def consumer1_def store1_def update_eq commit_eq)
  have v: "versionRef (cell world1) + 1 = 2" "fresh store1 = 1"
    by (simp_all add: world1_eq store1_def)
  from update_advances_version
         [where thunk = id and w = world1 and dev = True and sel = Inr and c = consumer1
            and c' = "consumer1\<lparr>version := 2\<rparr>" and prev = 0 and st = store1]
  have "versionRef (cell (run [Update id, Commit] world1)) = 2
        \<and> returned_ref (reducer consumer1 store1 0 (VersionOnly 2)) = Some 1
        \<and> reducer (consumer1\<lparr>version := 2\<rparr>) store1 0 (VersionOnly 2) = Inr (0, store1)"
    using h v by (simp add: world1_eq)
  with h show ?thesis by blast
qed

text \<open>
  The claim as stated fails.  The Provider of the scenario is settled with the value 1 at
  version 1.  An update whose thunk does nothing leaves the value at 1 and the version at
  2, which is one more and not two more; and the consumer that selects the unchanged
  value gets from its reducer, for the action \<^verbatim>\<open>[2]\<close>, an object other than its state at
  address 0, which is what makes React render it.
\<close>

theorem noop_update_advances_by_one:
  "deps world1 = Some (host world1)
   \<and> host (run [Update id, Commit] world1) = host world1
   \<and> valueRef (cell (run [Update id, Commit] world1)) = valueRef (cell world1)
   \<and> versionRef (cell (run [Update id, Commit] world1)) = versionRef (cell world1) + 1
   \<and> versionRef (cell (run [Update id, Commit] world1)) \<noteq> versionRef (cell world1) + 2
   \<and> deliveries (log (run [Update id, Commit] world1))
       = deliveries (log world1) @ [(7, VersionOnly 2)]
   \<and> useContextSelector True (ContextValue (cell world1)) Inr = Inr consumer1
   \<and> obj store1 0 = read consumer1
   \<and> returned_ref (reducer consumer1 store1 0 (VersionOnly 2)) = Some 1
   \<and> returned_ref (reducer consumer1 store1 0 (VersionOnly 2)) \<noteq> Some 0"
  by (simp add: world1_eq update_eq commit_eq useContextSelector_def consumer1_def store1_def
        reducer_def new_obj_def)

text \<open>
  C10.  With no Provider mounted the cell is the default one of \<^verbatim>\<open>createContext\<close>, with
  whatever listeners have subscribed to it.  The function \<^verbatim>\<open>useContextUpdate\<close> returns for
  it runs the thunk and nothing else: the cell is as before, its version still -1, and
  no listener is called.
\<close>

theorem default_update_only_runs_thunk:
  assumes "useContextUpdate dev (ContextValue (cell w)) = Inr upd"
      and "cell w = (createContext d)\<lparr>listeners := ls\<rparr>"
  shows "upd thunk w = w\<lparr>host := thunk (host w), log := log w @ [ThunkRun]\<rparr>
       \<and> cell (upd thunk w) = cell w
       \<and> versionRef (cell (upd thunk w)) = - 1
       \<and> versions (log (upd thunk w)) = versions (log w)
       \<and> deliveries (log (upd thunk w)) = deliveries (log w)"
proof -
  have "u (cell w) = DefaultU"
    by (simp add: assms(2) createContext_def)
  then have "upd = call_u DefaultU"
    using assms(1) by (simp add: useContextUpdate_def)
  then have "upd thunk w = w\<lparr>host := thunk (host w), log := log w @ [ThunkRun]\<rparr>"
    by (simp add: run_thunk_def emit_def)
  then show ?thesis
    by (simp add: assms(2) createContext_def versions_append deliveries_append)
qed

text \<open>Two consumers are subscribed to the default cell; the update sets the host's state
  to 9.  Nothing is delivered and the version stays -1.\<close>

theorem default_update_only_runs_thunk_witness:
  "useContextUpdate True (ContextValue (cell default_world))
     = (Inr (call_u DefaultU) :: unit error + (nat thunk \<Rightarrow> nat world \<Rightarrow> nat world))
   \<and> cell default_world = (createContext 0)\<lparr>listeners := [3, 4]\<rparr>
   \<and> call_u DefaultU (\<lambda>x. 9) default_world
       = default_world\<lparr>host := 9, log := [ThunkRun]\<rparr>
   \<and> versionRef (cell (call_u DefaultU (\<lambda>x. 9) default_world)) = - 1
   \<and> deliveries (log (call_u DefaultU (\<lambda>x. 9) default_world)) = []"
proof -
  have a: "useContextUpdate True (ContextValue (cell default_world))
     = (Inr (call_u DefaultU) :: unit error + (nat thunk \<Rightarrow> nat world \<Rightarrow> nat world))"
    by (simp add: useContextUpdate_def default_world_def createContext_def)
  have b: "cell default_world = (createContext 0)\<lparr>listeners := [3, 4]\<rparr>"
    by (simp add: default_world_def)
  from default_update_only_runs_thunk[OF a b, of "\<lambda>x. 9"] a b show ?thesis
    by (simp add: default_world_def createContext_def run_thunk_def emit_def)
qed

end
